theory Spec2Isabelle
  imports Main
begin

section \<open>JavaScript values and platform functions\<close>

text \<open>
  The queue layer of the repository is TypeScript. A message body has type \<open>any\<close>; it is
  modelled by the JSON-like values below. \<open>undefined\<close> at a typed position
  (\<open>x?: T\<close>, an unassigned class field) is \<open>None\<close> of an option type.
  A thrown \<open>Error\<close> object is a value \<open>Error msg\<close>, and a promise that settles is a
  sum: \<open>Inl e\<close> for a rejection, \<open>Inr v\<close> for fulfilment. The platform, the SQS client
  and the channel wrapper raise \<open>Error\<close> objects; a callback supplied by the user may
  reject with any value (see \<open>rejection\<close> below). A logger call is left out where its
  arguments cannot raise; where a \<open>catch\<close> block builds its log line from
  \<open>error.message\<close> and the caught value may be \<open>undefined\<close> or \<open>null\<close>, that read is
  part of the model.
\<close>

datatype js_value =
    JUndefined
  | JNull
  | JBool bool
  | JNumber int
  | JString string
  | JArray "js_value list"
  | JObject "(string \<times> js_value) list"

type_synonym js_object = "(string \<times> js_value) list"

datatype error = Error string

datatype js_date = Date int | InvalidDate

text \<open>\<open>new Date(n)\<close> for a number of milliseconds: beyond 8.64e15 either way the date
  is invalid.\<close>

definition new_Date :: "int \<Rightarrow> js_date" where
  "new_Date n = (if - 8640000000000000 \<le> n \<and> n \<le> 8640000000000000 then Date n else InvalidDate)"

text \<open>Reading a property of \<open>undefined\<close> or \<open>null\<close> raises a TypeError; \<open>kind\<close> is the
  text \<open>undefined\<close> or \<open>null\<close>, \<open>prop\<close> the property.\<close>

definition type_error :: "string \<Rightarrow> string \<Rightarrow> error" where
  "type_error kind prop =
     Error (''Cannot read properties of '' @ kind @ '' (reading '' @ [CHR 0x27] @ prop @
            [CHR 0x27] @ '')'')"

text \<open>
  Functions of the platform that the adapters call: \<open>JSON.parse\<close> (throws on malformed
  text), \<open>JSON.stringify\<close> (\<open>None\<close> is the result \<open>undefined\<close>, as for the argument
  \<open>undefined\<close>), \<open>parseInt\<close> (\<open>None\<close> is NaN), the clock \<open>Date.now()\<close>
  and the text \<open>Math.random().toString(36).substr(2, 9)\<close>. They are parameters of the
  model.
\<close>

record js_env =
  JSON_parse :: "string \<Rightarrow> error + js_value"
  JSON_stringify :: "js_value \<Rightarrow> error + string option"
  parseInt :: "string \<Rightarrow> int option"
  Date_now :: int
  random36 :: string

text \<open>\<open>x || d\<close> on an optional number: \<open>undefined\<close> and \<open>0\<close> are falsy.\<close>

definition or_default :: "int option \<Rightarrow> int \<Rightarrow> int" where
  "or_default x d = (case x of None \<Rightarrow> d | Some v \<Rightarrow> if v = 0 then d else v)"

text \<open>\<open>x || d\<close> on an optional string: \<open>undefined\<close> and the empty string are falsy.\<close>

definition truthy_str :: "string option \<Rightarrow> bool" where
  "truthy_str x = (case x of None \<Rightarrow> False | Some s \<Rightarrow> s \<noteq> [])"

text \<open>\<open>Array.prototype.join(sep)\<close> on an array of strings.\<close>

fun js_join :: "string \<Rightarrow> string list \<Rightarrow> string" where
  "js_join sep [] = []"
| "js_join sep [x] = x"
| "js_join sep (x # y # ys) = x @ sep @ js_join sep (y # ys)"

text \<open>\<open>xs.splice(0, k)\<close>: the removed prefix and the array that is left. A negative
  count removes nothing, a count beyond the length removes everything.\<close>

definition splice0 :: "int \<Rightarrow> 'a list \<Rightarrow> 'a list \<times> 'a list" where
  "splice0 k xs = (take (nat k) xs, drop (nat k) xs)"

text \<open>Decimal rendering of a number in a template literal.\<close>

fun string_of_nat :: "nat \<Rightarrow> string" where
  "string_of_nat n =
     (if n < 10 then [char_of (48 + n)]
      else string_of_nat (n div 10) @ [char_of (48 + n mod 10)])"

text \<open>The same for a number that may be large or negative (a clock value), computed on
  integers.\<close>

function digits_of_int :: "int \<Rightarrow> string" where
  "digits_of_int i =
     (if i < 10 then [char_of (48 + i)]
      else digits_of_int (i div 10) @ [char_of (48 + i mod 10)])"
  by pat_completeness auto
termination
  by (relation "measure nat") auto

definition string_of_int :: "int \<Rightarrow> string" where
  "string_of_int i = (if i < 0 then CHR ''-'' # digits_of_int (- i) else digits_of_int i)"

text \<open>Object spread \<open>{...a, ...b}\<close>: a later key overwrites the value in place, a new key
  is appended.\<close>

fun obj_set :: "string \<Rightarrow> 'v \<Rightarrow> (string \<times> 'v) list \<Rightarrow> (string \<times> 'v) list" where
  "obj_set k v [] = [(k, v)]"
| "obj_set k v ((k', v') # rest) =
     (if k = k' then (k, v) # rest else (k', v') # obj_set k v rest)"

definition spread :: "(string \<times> 'v) list \<Rightarrow> (string \<times> 'v) list \<Rightarrow> (string \<times> 'v) list" where
  "spread acc ob = foldl (\<lambda>a (k, v). obj_set k v a) acc ob"


section \<open>The common contract (queue.interface.ts)\<close>

text \<open>The interface file is \<^verbatim>\<open>src/unnamed/part_003\<close> of the source tree.\<close>

record QueueMessage =
  id' :: "string option"
  body :: js_value
  attributes :: "js_object option"
  timestamp :: "js_date option"

record PublishOptions =
  delaySeconds :: "int option"
  messageAttributes :: "js_object option"

record SubscribeOptions =
  maxNumberOfMessages :: "int option"
  waitTimeSeconds :: "int option"
  visibilityTimeout :: "int option"

text \<open>
  The callback handed to \<open>subscribe\<close> resolves or rejects for a message. It is code of
  the caller, so the value it rejects with is any value: an \<open>Error\<close> object, or something
  else (\<open>Promise.reject()\<close> and \<open>throw undefined\<close> reject with \<open>undefined\<close>).
\<close>

datatype rejection = Rejected_Error error | Rejected_Value js_value

type_synonym handler = "QueueMessage \<Rightarrow> rejection + unit"

text \<open>What evaluating \<open>error.message\<close> (and \<open>error.stack\<close>) does in a \<open>catch\<close> block that
  caught the rejection of a callback: it raises a TypeError on \<open>undefined\<close> and on
  \<open>null\<close>, and yields some value on everything else.\<close>

definition read_message :: "rejection \<Rightarrow> error + unit" where
  "read_message r =
     (case r of
        Rejected_Value JUndefined \<Rightarrow> Inl (type_error ''undefined'' ''message'')
      | Rejected_Value JNull \<Rightarrow> Inl (type_error ''null'' ''message'')
      | _ \<Rightarrow> Inr ())"


section \<open>MockQueueService (mock-queue.service.ts)\<close>

record MockQueueService =
  messages :: "QueueMessage list"
  messageIdCounter :: nat

definition MockQueueService_new :: MockQueueService where
  "MockQueueService_new = \<lparr> messages = [], messageIdCounter = 0 \<rparr>"

definition mock_publish ::
  "js_env \<Rightarrow> js_value \<Rightarrow> PublishOptions option \<Rightarrow> MockQueueService
     \<Rightarrow> (error + string) \<times> MockQueueService" where
  "mock_publish env message options s =
     (let counter = messageIdCounter s + 1;
          messageId = ''mock-msg-'' @ string_of_nat counter;
          queueMessage = \<lparr> id' = Some messageId,
                           body = message,
                           attributes = (case options of None \<Rightarrow> None
                                         | Some opts \<Rightarrow> messageAttributes opts),
                           timestamp = Some (new_Date (Date_now env)) \<rparr>
      in (Inr messageId,
          s\<lparr> messages := messages s @ [queueMessage], messageIdCounter := counter \<rparr>))"

text \<open>
  One firing of the \<open>setInterval\<close> callback installed by \<open>subscribe\<close>, with its
  outcome. The message is taken off the queue by \<open>shift()\<close> before the callback runs.
  The \<open>catch\<close> block builds its log line from \<open>error.message\<close> first and pushes the
  message back second, so when that read raises, the push is not reached and the firing
  ends with the TypeError.
\<close>

definition mock_tick :: "handler \<Rightarrow> MockQueueService \<Rightarrow> (error + unit) \<times> MockQueueService" where
  "mock_tick callback s =
     (case messages s of
        [] \<Rightarrow> (Inr (), s)
      | message # rest \<Rightarrow>
          (case callback message of
             Inr _ \<Rightarrow> (Inr (), s\<lparr> messages := rest \<rparr>)
           | Inl err \<Rightarrow>
               (case read_message err of
                  Inl te \<Rightarrow> (Inl te, s\<lparr> messages := rest \<rparr>)
                | Inr _ \<Rightarrow> (Inr (), s\<lparr> messages := rest @ [message] \<rparr>))))"

definition mock_subscribe :: "handler \<Rightarrow> MockQueueService \<Rightarrow> (error + unit) \<times> MockQueueService" where
  "mock_subscribe callback s = (Inr (), s)"

definition mock_receiveMessages ::
  "SubscribeOptions option \<Rightarrow> MockQueueService
     \<Rightarrow> (error + QueueMessage list) \<times> MockQueueService" where
  "mock_receiveMessages options s =
     (let maxMessages = or_default (case options of None \<Rightarrow> None
                                    | Some opts \<Rightarrow> maxNumberOfMessages opts) 10;
          (msgs, rest) = splice0 maxMessages (messages s)
      in (Inr msgs, s\<lparr> messages := rest \<rparr>))"

definition mock_deleteMessage ::
  "string \<Rightarrow> MockQueueService \<Rightarrow> (error + unit) \<times> MockQueueService" where
  "mock_deleteMessage messageId s =
     (Inr (), s\<lparr> messages := filter (\<lambda>msg. id' msg \<noteq> Some messageId) (messages s) \<rparr>)"

definition mock_getQueueIdentifier :: "MockQueueService \<Rightarrow> string" where
  "mock_getQueueIdentifier s = ''mock-queue (in-memory)''"

definition mock_close :: "MockQueueService \<Rightarrow> (error + unit) \<times> MockQueueService" where
  "mock_close s = (Inr (), s\<lparr> messages := [] \<rparr>)"

definition mock_getQueueSize :: "MockQueueService \<Rightarrow> nat" where
  "mock_getQueueSize s = length (messages s)"


section \<open>Module options (queue.module.ts)\<close>

text \<open>Configuration values come from the environment and may be absent at run time
  whatever the declared type says, so each one is optional.\<close>

record sqs_options =
  cfg_region :: "string option"
  cfg_endpoint :: "string option"
  cfg_queueUrl :: "string option"
  cfg_accessKeyId :: "string option"
  cfg_secretAccessKey :: "string option"

record rabbitmq_options =
  cfg_url :: "string option"
  cfg_queueName :: "string option"
  cfg_exchangeName :: "string option"
  cfg_routingKey :: "string option"

record QueueModuleOptions =
  provider :: string
  sqs :: "sqs_options option"
  rabbitmq :: "rabbitmq_options option"


section \<open>SqsQueueService (sqs-queue.service.ts)\<close>

text \<open>In the source tree the class follows \<open>RabbitMqQueueService\<close> in
  \<^verbatim>\<open>src/src/queue/providers/rabbitmq-queue.service.ts\<close>, from line 207 on.\<close>

record SQSClient =
  client_region :: string
  client_endpoint :: "string option"
  client_credentials :: "(string \<times> string) option"

text \<open>The message shape of the SQS SDK.\<close>

record sqs_message =
  MessageId :: "string option"
  ReceiptHandle :: "string option"
  Body :: "string option"
  Attributes :: "(string \<times> string) list option"
  MessageAttributes :: "js_object option"

text \<open>
  The SQS service behind \<open>sqsClient.send\<close>, one function per command the adapter sends.
  \<open>'w\<close> is the state of the remote service; every call returns its outcome and the new
  state. \<open>send_SendMessage\<close> takes QueueUrl, MessageBody (absent when
  \<open>JSON.stringify\<close> gave \<open>undefined\<close>), DelaySeconds and
  MessageAttributes and answers with the MessageId (the adapter asserts it present with
  \<open>response.MessageId!\<close>); \<open>send_ReceiveMessage\<close> takes QueueUrl, MaxNumberOfMessages,
  WaitTimeSeconds and VisibilityTimeout and answers with \<open>response.Messages\<close>;
  \<open>send_DeleteMessage\<close> takes QueueUrl and ReceiptHandle.
\<close>

record 'w sqs_backend =
  send_SendMessage ::
    "string option \<Rightarrow> string option \<Rightarrow> int option \<Rightarrow> js_object option \<Rightarrow> 'w
       \<Rightarrow> (error + string) \<times> 'w"
  send_ReceiveMessage ::
    "string option \<Rightarrow> int \<Rightarrow> int \<Rightarrow> int \<Rightarrow> 'w \<Rightarrow> (error + sqs_message list option) \<times> 'w"
  send_DeleteMessage ::
    "string option \<Rightarrow> string option \<Rightarrow> 'w \<Rightarrow> (error + unit) \<times> 'w"

record SqsQueueService =
  sqsClient :: "SQSClient option"
  queueUrl :: "string option"
  isPolling :: bool
  pollingInterval :: "nat option"

definition SqsQueueService_unconfigured :: SqsQueueService where
  "SqsQueueService_unconfigured =
     \<lparr> sqsClient = None, queueUrl = None, isPolling = False, pollingInterval = None \<rparr>"

text \<open>The constructor, that is \<open>initializeSqsClient\<close>.\<close>

definition SqsQueueService_new :: "QueueModuleOptions \<Rightarrow> SqsQueueService" where
  "SqsQueueService_new options =
     (case sqs options of
        None \<Rightarrow> SqsQueueService_unconfigured
      | Some cfg \<Rightarrow>
          if \<not> truthy_str (cfg_queueUrl cfg) then SqsQueueService_unconfigured
          else
            \<lparr> sqsClient = Some
                 \<lparr> client_region =
                     (if truthy_str (cfg_region cfg) then the (cfg_region cfg) else ''us-east-1''),
                   client_endpoint =
                     (if truthy_str (cfg_endpoint cfg) then cfg_endpoint cfg else None),
                   client_credentials =
                     (if truthy_str (cfg_accessKeyId cfg) \<and> truthy_str (cfg_secretAccessKey cfg)
                      then Some (the (cfg_accessKeyId cfg), the (cfg_secretAccessKey cfg))
                      else None) \<rparr>,
              queueUrl = cfg_queueUrl cfg,
              isPolling = False,
              pollingInterval = None \<rparr>)"

text \<open>\<open>typeof message === 'string' ? message : JSON.stringify(message)\<close>; \<open>None\<close> is
  the result \<open>undefined\<close>.\<close>

definition messageBody_of :: "js_env \<Rightarrow> js_value \<Rightarrow> error + string option" where
  "messageBody_of env message =
     (case message of JString str \<Rightarrow> Inr (Some str) | _ \<Rightarrow> JSON_stringify env message)"

fun formatEntries :: "js_env \<Rightarrow> js_object \<Rightarrow> js_object \<Rightarrow> error + js_object" where
  "formatEntries env acc [] = Inr acc"
| "formatEntries env acc ((key, val) # rest) =
     (case messageBody_of env val of
        Inl e \<Rightarrow> Inl e
      | Inr str \<Rightarrow>
          formatEntries env
            (obj_set key
               (JObject [(''DataType'', JString ''String''),
                         (''StringValue'', case str of None \<Rightarrow> JUndefined | Some txt \<Rightarrow> JString txt)])
               acc)
            rest)"

definition formatMessageAttributes :: "js_env \<Rightarrow> js_object option \<Rightarrow> error + js_object option" where
  "formatMessageAttributes env attrs =
     (case attrs of
        None \<Rightarrow> Inr None
      | Some entries \<Rightarrow>
          (case formatEntries env [] entries of Inl e \<Rightarrow> Inl e | Inr ob \<Rightarrow> Inr (Some ob)))"

definition sqs_publish ::
  "js_env \<Rightarrow> 'w sqs_backend \<Rightarrow> js_value \<Rightarrow> PublishOptions option \<Rightarrow> SqsQueueService \<Rightarrow> 'w
     \<Rightarrow> (error + string) \<times> 'w" where
  "sqs_publish env client message options s w =
     (if sqsClient s = None then (Inl (Error ''SQS client is not initialized''), w)
      else
        (case messageBody_of env message of
           Inl e \<Rightarrow> (Inl e, w)
         | Inr messageBody \<Rightarrow>
             (case formatMessageAttributes env
                     (case options of None \<Rightarrow> None | Some opts \<Rightarrow> messageAttributes opts) of
                Inl e \<Rightarrow> (Inl e, w)
              | Inr attrs \<Rightarrow>
                  send_SendMessage client (queueUrl s) messageBody
                    (case options of None \<Rightarrow> None | Some opts \<Rightarrow> delaySeconds opts) attrs w)))"

definition mapSqsMessage :: "js_env \<Rightarrow> sqs_message \<Rightarrow> QueueMessage" where
  "mapSqsMessage env message =
     \<lparr> id' = ReceiptHandle message,
       body =
         (case JSON_parse env (if truthy_str (Body message) then the (Body message) else ''{}'') of
            Inr v \<Rightarrow> v
          | Inl _ \<Rightarrow> (case Body message of None \<Rightarrow> JUndefined | Some raw \<Rightarrow> JString raw)),
       attributes = Some
         (spread
            (spread
               [(''messageId'', case MessageId message of None \<Rightarrow> JUndefined | Some m \<Rightarrow> JString m)]
               (case Attributes message of None \<Rightarrow> []
                | Some attrs \<Rightarrow> map (\<lambda>(k, v). (k, JString v)) attrs))
            (case MessageAttributes message of None \<Rightarrow> [] | Some attrs \<Rightarrow> attrs)),
       timestamp = Some
         (case Attributes message of
            None \<Rightarrow> new_Date (Date_now env)
          | Some attrs \<Rightarrow>
              if truthy_str (map_of attrs ''SentTimestamp'')
              then (case parseInt env (the (map_of attrs ''SentTimestamp'')) of
                      None \<Rightarrow> InvalidDate | Some n \<Rightarrow> new_Date n)
              else new_Date (Date_now env)) \<rparr>"

definition sqs_receiveMessages ::
  "js_env \<Rightarrow> 'w sqs_backend \<Rightarrow> SubscribeOptions option \<Rightarrow> SqsQueueService \<Rightarrow> 'w
     \<Rightarrow> (error + QueueMessage list) \<times> 'w" where
  "sqs_receiveMessages env client options s w =
     (if sqsClient s = None then (Inl (Error ''SQS client is not initialized''), w)
      else
        (case send_ReceiveMessage client (queueUrl s)
                (or_default (case options of None \<Rightarrow> None | Some opts \<Rightarrow> maxNumberOfMessages opts) 10)
                (or_default (case options of None \<Rightarrow> None | Some opts \<Rightarrow> waitTimeSeconds opts) 10)
                (or_default (case options of None \<Rightarrow> None | Some opts \<Rightarrow> visibilityTimeout opts) 30)
                w of
           (Inl e, w') \<Rightarrow> (Inl e, w')
         | (Inr response_Messages, w') \<Rightarrow>
             (Inr (map (mapSqsMessage env)
                     (case response_Messages of None \<Rightarrow> [] | Some ms \<Rightarrow> ms)), w')))"

text \<open>The caller of \<open>deleteMessage\<close> in \<open>subscribe\<close> passes \<open>message.id!\<close>, which may be
  \<open>undefined\<close> at run time, so the argument is optional here.\<close>

definition sqs_deleteMessage ::
  "'w sqs_backend \<Rightarrow> string option \<Rightarrow> SqsQueueService \<Rightarrow> 'w \<Rightarrow> (error + unit) \<times> 'w" where
  "sqs_deleteMessage client messageId s w =
     (if sqsClient s = None then (Inl (Error ''SQS client is not initialized''), w)
      else send_DeleteMessage client (queueUrl s) messageId w)"

text \<open>\<open>subscribe\<close> checks the client, raises the polling flag and starts \<open>poll\<close> without
  waiting for it.\<close>

definition sqs_subscribe :: "SqsQueueService \<Rightarrow> (error + unit) \<times> SqsQueueService" where
  "sqs_subscribe s =
     (if sqsClient s = None then (Inl (Error ''SQS client is not initialized''), s)
      else (Inr (), s\<lparr> isPolling := True \<rparr>))"

text \<open>
  The body of the \<open>for\<close> loop of \<open>poll\<close> for one message: the callback, then
  \<open>deleteMessage\<close>. An error of either is caught by the inner \<open>catch\<close>, which builds
  its log line from \<open>error.message\<close>; an error of \<open>deleteMessage\<close> is an \<open>Error\<close>
  object, a rejection of the callback may make that read raise, and then the body ends
  with the TypeError.
\<close>

definition sqs_process_message ::
  "'w sqs_backend \<Rightarrow> handler \<Rightarrow> SqsQueueService \<Rightarrow> QueueMessage \<Rightarrow> 'w \<Rightarrow> (error + unit) \<times> 'w" where
  "sqs_process_message client callback s message w =
     (case callback message of
        Inl err \<Rightarrow>
          (case read_message err of
             Inl te \<Rightarrow> (Inl te, w)
           | Inr _ \<Rightarrow> (Inr (), w))
      | Inr _ \<Rightarrow> (Inr (), snd (sqs_deleteMessage client (id' message) s w)))"

text \<open>The \<open>for\<close> loop: an error that leaves the body leaves the loop, and the messages
  behind it are not handled.\<close>

fun sqs_process_messages ::
  "'w sqs_backend \<Rightarrow> handler \<Rightarrow> SqsQueueService \<Rightarrow> QueueMessage list \<Rightarrow> 'w \<Rightarrow> (error + unit) \<times> 'w" where
  "sqs_process_messages client callback s [] w = (Inr (), w)"
| "sqs_process_messages client callback s (message # rest) w =
     (case sqs_process_message client callback s message w of
        (Inl e, w') \<Rightarrow> (Inl e, w')
      | (Inr _, w') \<Rightarrow> sqs_process_messages client callback s rest w')"

text \<open>One run of \<open>poll\<close>; \<open>timer\<close> is the handle \<open>setTimeout\<close> returns. The outer
  \<open>catch\<close> logs an error of the receive or of the loop, each an \<open>Error\<close> object.\<close>

definition sqs_poll ::
  "js_env \<Rightarrow> 'w sqs_backend \<Rightarrow> handler \<Rightarrow> nat \<Rightarrow> SqsQueueService \<Rightarrow> 'w \<Rightarrow> SqsQueueService \<times> 'w" where
  "sqs_poll env client callback timer s w =
     (if \<not> isPolling s then (s, w)
      else
        (case sqs_receiveMessages env client
                (Some \<lparr> maxNumberOfMessages = Some 10, waitTimeSeconds = Some 20,
                        visibilityTimeout = None \<rparr>) s w of
           (Inl e, w') \<Rightarrow> (s\<lparr> pollingInterval := Some timer \<rparr>, w')
         | (Inr msgs, w') \<Rightarrow>
             (s\<lparr> pollingInterval := Some timer \<rparr>,
              snd (sqs_process_messages client callback s msgs w'))))"

definition sqs_getQueueIdentifier :: "SqsQueueService \<Rightarrow> string option" where
  "sqs_getQueueIdentifier s = queueUrl s"

text \<open>\<open>close\<close>: \<open>sqsClient.destroy()\<close> releases the SDK's sockets and leaves the fields of
  the adapter as they are.\<close>

definition sqs_close :: "SqsQueueService \<Rightarrow> (error + unit) \<times> SqsQueueService" where
  "sqs_close s = (Inr (), s\<lparr> isPolling := False, pollingInterval := None \<rparr>)"


section \<open>RabbitMqQueueService (rabbitmq-queue.service.ts)\<close>

datatype AmqpConnectionManager = AmqpConnectionManager "string list"

datatype ChannelWrapper = ChannelWrapper

text \<open>A delivery of amqplib: the content buffer (read with \<open>toString()\<close>), the message
  properties and the delivery fields. The properties and fields the adapter does not read
  are kept as objects, for the spread into \<open>attributes\<close>.\<close>

record MessageProperties =
  messageId :: "string option"
  props_timestamp :: "int option"
  headers :: "js_object option"
  other_properties :: js_object

record MessageFields =
  deliveryTag :: nat
  other_fields :: js_object

record ConsumeMessage =
  content :: string
  properties :: MessageProperties
  fields' :: MessageFields

text \<open>
  The broker behind the channel. \<open>ch_publish\<close> takes exchange, routing key, content,
  messageId, timestamp and headers; \<open>ch_get\<close> answers with a message or \<open>false\<close>
  (\<open>None\<close>); \<open>ch_consume\<close> registers the consumer; \<open>ch_ack\<close> and \<open>ch_nack\<close> (with its
  \<open>allUpTo\<close> and \<open>requeue\<close> flags) settle a delivery; \<open>ch_close\<close> and \<open>conn_close\<close>
  close the channel wrapper and the connection.
\<close>

record 'w amqp_backend =
  ch_publish ::
    "string option \<Rightarrow> string option \<Rightarrow> string \<Rightarrow> string \<Rightarrow> int \<Rightarrow> js_object option \<Rightarrow> 'w
       \<Rightarrow> (error + unit) \<times> 'w"
  ch_get :: "string option \<Rightarrow> 'w \<Rightarrow> (error + ConsumeMessage option) \<times> 'w"
  ch_consume :: "string option \<Rightarrow> 'w \<Rightarrow> (error + unit) \<times> 'w"
  ch_ack :: "ConsumeMessage \<Rightarrow> 'w \<Rightarrow> (error + unit) \<times> 'w"
  ch_nack :: "ConsumeMessage \<Rightarrow> bool \<Rightarrow> bool \<Rightarrow> 'w \<Rightarrow> 'w"
  ch_close :: "'w \<Rightarrow> (error + unit) \<times> 'w"
  conn_close :: "'w \<Rightarrow> (error + unit) \<times> 'w"

record RabbitMqQueueService =
  connection :: "AmqpConnectionManager option"
  channelWrapper :: "ChannelWrapper option"
  queueName :: "string option"
  exchangeName :: "string option"
  routingKey :: "string option"
  isConnected :: bool

definition RabbitMqQueueService_unconfigured :: RabbitMqQueueService where
  "RabbitMqQueueService_unconfigured =
     \<lparr> connection = None, channelWrapper = None, queueName = None, exchangeName = None,
       routingKey = None, isConnected = False \<rparr>"

text \<open>The constructor runs \<open>initializeRabbitMq\<close> up to its first \<open>await\<close> and does not
  wait for the rest; \<open>isConnected\<close> is raised later, by the connection's event.\<close>

definition RabbitMqQueueService_new :: "QueueModuleOptions \<Rightarrow> RabbitMqQueueService" where
  "RabbitMqQueueService_new options =
     (case rabbitmq options of
        None \<Rightarrow> RabbitMqQueueService_unconfigured
      | Some cfg \<Rightarrow>
          if \<not> truthy_str (cfg_url cfg) then RabbitMqQueueService_unconfigured
          else
            \<lparr> connection = Some (AmqpConnectionManager [the (cfg_url cfg)]),
              channelWrapper = Some ChannelWrapper,
              queueName = cfg_queueName cfg,
              exchangeName = cfg_exchangeName cfg,
              routingKey = cfg_routingKey cfg,
              isConnected = False \<rparr>)"

definition rmq_on_connect :: "RabbitMqQueueService \<Rightarrow> RabbitMqQueueService" where
  "rmq_on_connect s = s\<lparr> isConnected := True \<rparr>"

definition rmq_on_disconnect :: "RabbitMqQueueService \<Rightarrow> RabbitMqQueueService" where
  "rmq_on_disconnect s = s\<lparr> isConnected := False \<rparr>"

definition generateMessageId :: "js_env \<Rightarrow> string" where
  "generateMessageId env = string_of_int (Date_now env) @ ''-'' @ random36 env"

text \<open>\<open>Buffer.from(undefined)\<close> raises a TypeError.\<close>

definition Buffer_from_undefined :: error where
  "Buffer_from_undefined =
     Error (''The first argument must be of type string or an instance of Buffer, '' @
            ''ArrayBuffer, or Array or an Array-like Object. Received undefined'')"

definition rmq_publish ::
  "js_env \<Rightarrow> 'w amqp_backend \<Rightarrow> js_value \<Rightarrow> PublishOptions option \<Rightarrow> RabbitMqQueueService \<Rightarrow> 'w
     \<Rightarrow> (error + string) \<times> 'w" where
  "rmq_publish env chan message options s w =
     (if \<not> isConnected s then (Inl (Error ''RabbitMQ is not connected''), w)
      else
        (case messageBody_of env message of
           Inl e \<Rightarrow> (Inl e, w)
         | Inr messageBody \<Rightarrow>
             (let msgId = generateMessageId env in
              if channelWrapper s = None then (Inl (type_error ''undefined'' ''publish''), w)
              else
                (case messageBody of
                   None \<Rightarrow> (Inl Buffer_from_undefined, w)
                 | Some txt \<Rightarrow>
                     (case ch_publish chan (exchangeName s) (routingKey s) txt msgId
                             (Date_now env)
                             (case options of None \<Rightarrow> None
                              | Some opts \<Rightarrow> messageAttributes opts) w of
                        (Inl e, w') \<Rightarrow> (Inl e, w')
                      | (Inr _, w') \<Rightarrow> (Inr msgId, w'))))))"

definition properties_entries :: "MessageProperties \<Rightarrow> js_object" where
  "properties_entries p =
     [(''messageId'', case messageId p of None \<Rightarrow> JUndefined | Some m \<Rightarrow> JString m),
      (''timestamp'', case props_timestamp p of None \<Rightarrow> JUndefined | Some t \<Rightarrow> JNumber t),
      (''headers'', case headers p of None \<Rightarrow> JUndefined | Some h \<Rightarrow> JObject h)]
     @ other_properties p"

definition fields_entries :: "MessageFields \<Rightarrow> js_object" where
  "fields_entries f = (''deliveryTag'', JNumber (int (deliveryTag f))) # other_fields f"

definition mapRabbitMqMessage :: "js_env \<Rightarrow> ConsumeMessage \<Rightarrow> QueueMessage" where
  "mapRabbitMqMessage env msg =
     \<lparr> id' = (if truthy_str (messageId (properties msg)) then messageId (properties msg)
              else Some (string_of_nat (deliveryTag (fields' msg)))),
       body = (case JSON_parse env (content msg) of
                 Inr v \<Rightarrow> v
               | Inl _ \<Rightarrow> JString (content msg)),
       attributes = Some (spread (spread [] (properties_entries (properties msg)))
                            (fields_entries (fields' msg))),
       timestamp = Some
         (case props_timestamp (properties msg) of
            None \<Rightarrow> new_Date (Date_now env)
          | Some t \<Rightarrow> if t = 0 then new_Date (Date_now env) else new_Date t) \<rparr>"

text \<open>
  The consumer callback registered by \<open>subscribe\<close>, run by the broker for each
  delivery (\<open>null\<close> when the consumer is cancelled), with its outcome. An error of the
  callback or of \<open>ack\<close> lands in the \<open>catch\<close>, which builds its log line from
  \<open>error.message\<close> and \<open>error.stack\<close> first and calls \<open>nack\<close> with requeue second. An
  error of \<open>ack\<close> is an \<open>Error\<close> object; when the read raises on the rejection of the
  callback, \<open>nack\<close> is not reached.
\<close>

definition rmq_on_message ::
  "js_env \<Rightarrow> 'w amqp_backend \<Rightarrow> handler \<Rightarrow> ConsumeMessage option \<Rightarrow> 'w \<Rightarrow> (error + unit) \<times> 'w" where
  "rmq_on_message env chan callback delivery w =
     (case delivery of
        None \<Rightarrow> (Inr (), w)
      | Some msg \<Rightarrow>
          (case callback (mapRabbitMqMessage env msg) of
             Inl err \<Rightarrow>
               (case read_message err of
                  Inl te \<Rightarrow> (Inl te, w)
                | Inr _ \<Rightarrow> (Inr (), ch_nack chan msg False True w))
           | Inr _ \<Rightarrow>
               (case ch_ack chan msg w of
                  (Inr _, w') \<Rightarrow> (Inr (), w')
                | (Inl _, w') \<Rightarrow> (Inr (), ch_nack chan msg False True w'))))"

definition rmq_subscribe ::
  "'w amqp_backend \<Rightarrow> RabbitMqQueueService \<Rightarrow> 'w \<Rightarrow> (error + unit) \<times> 'w" where
  "rmq_subscribe chan s w =
     (if \<not> isConnected s then (Inl (Error ''RabbitMQ is not connected''), w)
      else if channelWrapper s = None then (Inl (type_error ''undefined'' ''addSetup''), w)
      else ch_consume chan (queueName s) w)"

text \<open>The \<open>for\<close> loop of \<open>receiveMessages\<close>, with the number of rounds left.\<close>

fun rmq_get_loop ::
  "js_env \<Rightarrow> 'w amqp_backend \<Rightarrow> string option \<Rightarrow> nat \<Rightarrow> QueueMessage list \<Rightarrow> 'w
     \<Rightarrow> (error + QueueMessage list) \<times> 'w" where
  "rmq_get_loop env chan qn 0 acc w = (Inr acc, w)"
| "rmq_get_loop env chan qn (Suc n) acc w =
     (case ch_get chan qn w of
        (Inl e, w') \<Rightarrow> (Inl e, w')
      | (Inr None, w') \<Rightarrow> (Inr acc, w')
      | (Inr (Some msg), w') \<Rightarrow>
          rmq_get_loop env chan qn n (acc @ [mapRabbitMqMessage env msg]) w')"

definition rmq_receiveMessages ::
  "js_env \<Rightarrow> 'w amqp_backend \<Rightarrow> SubscribeOptions option \<Rightarrow> RabbitMqQueueService \<Rightarrow> 'w
     \<Rightarrow> (error + QueueMessage list) \<times> 'w" where
  "rmq_receiveMessages env chan options s w =
     (if \<not> isConnected s then (Inl (Error ''RabbitMQ is not connected''), w)
      else
        (let maxMessages = or_default (case options of None \<Rightarrow> None
                                       | Some opts \<Rightarrow> maxNumberOfMessages opts) 10
         in if channelWrapper s = None then (Inl (type_error ''undefined'' ''addSetup''), w)
            else rmq_get_loop env chan (queueName s) (nat maxMessages) [] w))"

definition rmq_deleteMessage :: "string \<Rightarrow> RabbitMqQueueService \<Rightarrow> error + unit" where
  "rmq_deleteMessage msgId s = Inr ()"

text \<open>A template literal renders \<open>undefined\<close> as the text \<open>undefined\<close>.\<close>

definition template_str :: "string option \<Rightarrow> string" where
  "template_str x = (case x of None \<Rightarrow> ''undefined'' | Some str \<Rightarrow> str)"

definition rmq_getQueueIdentifier :: "RabbitMqQueueService \<Rightarrow> string" where
  "rmq_getQueueIdentifier s = template_str (exchangeName s) @ ''/'' @ template_str (queueName s)"

text \<open>\<open>close\<close>: the whole body is in a \<open>try\<close> whose \<open>catch\<close> only logs, so an error of
  either close call skips the rest of the body, the flag included.\<close>

definition rmq_close ::
  "'w amqp_backend \<Rightarrow> RabbitMqQueueService \<Rightarrow> 'w \<Rightarrow> (error + unit) \<times> RabbitMqQueueService \<times> 'w" where
  "rmq_close chan s w =
     (case (if channelWrapper s = None then (Inr (), w) else ch_close chan w) of
        (Inl _, w1) \<Rightarrow> (Inr (), s, w1)
      | (Inr _, w1) \<Rightarrow>
          (case (if connection s = None then (Inr (), w1) else conn_close chan w1) of
             (Inl _, w2) \<Rightarrow> (Inr (), s, w2)
           | (Inr _, w2) \<Rightarrow> (Inr (), s\<lparr> isConnected := False \<rparr>, w2)))"


section \<open>CompositeQueueService (composite-queue.service.ts)\<close>

record CompositeQueueService =
  sqsService :: SqsQueueService
  rabbitMqService :: RabbitMqQueueService

text \<open>What \<open>Promise.allSettled\<close> hands to the \<open>forEach\<close> of \<open>publish\<close>: the values of
  the fulfilled results and the reasons of the rejected ones, each in the order of the
  array.\<close>

fun fulfilled :: "(error + 'a) list \<Rightarrow> 'a list" where
  "fulfilled [] = []"
| "fulfilled (Inr v # rs) = v # fulfilled rs"
| "fulfilled (Inl e # rs) = fulfilled rs"

fun rejected :: "(error + 'a) list \<Rightarrow> error list" where
  "rejected [] = []"
| "rejected (Inr v # rs) = rejected rs"
| "rejected (Inl e # rs) = e # rejected rs"

text \<open>\<open>Promise.all\<close> over promises that have all settled: the first rejection in the
  order of the array, or success.\<close>

fun promise_all :: "(error + unit) list \<Rightarrow> error + unit" where
  "promise_all [] = Inr ()"
| "promise_all (Inl e # rs) = Inl e"
| "promise_all (Inr _ # rs) = promise_all rs"

text \<open>The two children talk to different services, so the composite carries both remote
  states; the calls are independent of each other and their order does not matter.\<close>

definition composite_publish ::
  "js_env \<Rightarrow> 'a sqs_backend \<Rightarrow> 'b amqp_backend \<Rightarrow> js_value \<Rightarrow> PublishOptions option
     \<Rightarrow> CompositeQueueService \<Rightarrow> 'a \<Rightarrow> 'b \<Rightarrow> (error + string) \<times> 'a \<times> 'b" where
  "composite_publish env client chan message options c wa wb =
     (let (r1, wa') = sqs_publish env client message options (sqsService c) wa;
          (r2, wb') = rmq_publish env chan message options (rabbitMqService c) wb;
          results = [r1, r2];
          successfulIds = fulfilled results;
          errors = rejected results
      in (if length successfulIds = 0
          then Inl (Error ''Failed to publish message to any queue provider'')
          else Inr (js_join '','' successfulIds),
          wa', wb'))"

definition composite_subscribe ::
  "'b amqp_backend \<Rightarrow> CompositeQueueService \<Rightarrow> 'b \<Rightarrow> (error + unit) \<times> CompositeQueueService \<times> 'b" where
  "composite_subscribe chan c wb =
     (let (r1, sqs') = sqs_subscribe (sqsService c);
          (r2, wb') = rmq_subscribe chan (rabbitMqService c) wb
      in (promise_all [r1, r2], c\<lparr> sqsService := sqs' \<rparr>, wb'))"

definition composite_receiveMessages ::
  "js_env \<Rightarrow> 'a sqs_backend \<Rightarrow> 'b amqp_backend \<Rightarrow> SubscribeOptions option
     \<Rightarrow> CompositeQueueService \<Rightarrow> 'a \<Rightarrow> 'b \<Rightarrow> (error + QueueMessage list) \<times> 'a \<times> 'b" where
  "composite_receiveMessages env client chan options c wa wb =
     (let (r1, wa') = sqs_receiveMessages env client options (sqsService c) wa;
          (r2, wb') = rmq_receiveMessages env chan options (rabbitMqService c) wb;
          sqsMessages = (case r1 of Inl err \<Rightarrow> [] | Inr ms \<Rightarrow> ms);
          rabbitMqMessages = (case r2 of Inl err \<Rightarrow> [] | Inr ms \<Rightarrow> ms)
      in (Inr (sqsMessages @ rabbitMqMessages), wa', wb'))"

definition composite_deleteMessage ::
  "'a sqs_backend \<Rightarrow> string \<Rightarrow> CompositeQueueService \<Rightarrow> 'a \<Rightarrow> (error + unit) \<times> 'a" where
  "composite_deleteMessage client msgId c wa =
     (let (r1, wa') = sqs_deleteMessage client (Some msgId) (sqsService c) wa;
          r2 = rmq_deleteMessage msgId (rabbitMqService c)
      in (Inr (), wa'))"

definition composite_getQueueIdentifier :: "CompositeQueueService \<Rightarrow> string" where
  "composite_getQueueIdentifier c =
     ''composite['' @ template_str (sqs_getQueueIdentifier (sqsService c)) @ '','' @
       rmq_getQueueIdentifier (rabbitMqService c) @ '']''"

definition composite_close ::
  "'b amqp_backend \<Rightarrow> CompositeQueueService \<Rightarrow> 'b \<Rightarrow> (error + unit) \<times> CompositeQueueService \<times> 'b" where
  "composite_close chan c wb =
     (let (r1, sqs') = sqs_close (sqsService c);
          (r2, rmq', wb') = rmq_close chan (rabbitMqService c) wb
      in (promise_all [r1, r2], \<lparr> sqsService = sqs', rabbitMqService = rmq' \<rparr>, wb'))"


section \<open>QueueModule (queue.module.ts)\<close>

text \<open>The module file is \<^verbatim>\<open>src/unnamed/part_004\<close> of the source tree.\<close>

text \<open>\<open>configService.get(key, default)\<close> over the environment.\<close>

definition config_get :: "(string \<Rightarrow> string option) \<Rightarrow> string \<Rightarrow> string \<Rightarrow> string" where
  "config_get config key dflt = (case config key of None \<Rightarrow> dflt | Some v \<Rightarrow> v)"

definition QUEUE_OPTIONS_factory :: "(string \<Rightarrow> string option) \<Rightarrow> QueueModuleOptions" where
  "QUEUE_OPTIONS_factory config =
     \<lparr> provider = config_get config ''QUEUE_PROVIDER'' ''rabbitmq'',
       sqs = Some
         \<lparr> cfg_region = Some (config_get config ''AWS_REGION'' ''us-east-1''),
           cfg_endpoint = config ''AWS_ENDPOINT'',
           cfg_queueUrl = config ''SQS_QUEUE_URL'',
           cfg_accessKeyId = config ''AWS_ACCESS_KEY_ID'',
           cfg_secretAccessKey = config ''AWS_SECRET_ACCESS_KEY'' \<rparr>,
       rabbitmq = Some
         \<lparr> cfg_url = Some (config_get config ''RABBITMQ_URL'' ''amqp://localhost:5672''),
           cfg_queueName = Some (config_get config ''RABBITMQ_QUEUE_NAME'' ''test-queue''),
           cfg_exchangeName = Some (config_get config ''RABBITMQ_EXCHANGE_NAME'' ''test-exchange''),
           cfg_routingKey = Some (config_get config ''RABBITMQ_ROUTING_KEY'' ''test-routing-key'') \<rparr> \<rparr>"

text \<open>The instance bound to \<open>QUEUE_SERVICE\<close>: one of the four adapters.\<close>

datatype IQueueService =
    Sqs SqsQueueService
  | RabbitMq RabbitMqQueueService
  | Composite CompositeQueueService
  | Mock MockQueueService

text \<open>The \<open>useFactory\<close> of \<open>QUEUE_SERVICE\<close> (the same \<open>switch\<close> in \<open>forRoot\<close> and in
  \<open>forRootAsync\<close>).\<close>

definition QUEUE_SERVICE_factory ::
  "QueueModuleOptions \<Rightarrow> SqsQueueService \<Rightarrow> RabbitMqQueueService \<Rightarrow> CompositeQueueService
     \<Rightarrow> MockQueueService \<Rightarrow> error + IQueueService" where
  "QUEUE_SERVICE_factory options sqsSvc rabbitMqSvc compositeSvc mockSvc =
     (if provider options = ''sqs'' then Inr (Sqs sqsSvc)
      else if provider options = ''rabbitmq'' then Inr (RabbitMq rabbitMqSvc)
      else if provider options = ''both'' then Inr (Composite compositeSvc)
      else if provider options = ''mock'' then Inr (Mock mockSvc)
      else Inl (Error (''Unknown queue provider: '' @ provider options)))"

text \<open>Instantiating the providers of the module, which the framework does while the
  application starts: the options, the four adapters, then the factory. No operation of
  an adapter is called on the way.\<close>

definition QueueModule_instantiate :: "QueueModuleOptions \<Rightarrow> error + IQueueService" where
  "QueueModule_instantiate options =
     (let sqsSvc = SqsQueueService_new options;
          rabbitMqSvc = RabbitMqQueueService_new options;
          compositeSvc = \<lparr> sqsService = sqsSvc, rabbitMqService = rabbitMqSvc \<rparr>;
          mockSvc = MockQueueService_new
      in QUEUE_SERVICE_factory options sqsSvc rabbitMqSvc compositeSvc mockSvc)"

definition QueueModule_forRoot :: "(string \<Rightarrow> string option) \<Rightarrow> error + IQueueService" where
  "QueueModule_forRoot config = QueueModule_instantiate (QUEUE_OPTIONS_factory config)"


section \<open>An environment and backends for closed examples\<close>

text \<open>
  The theorems below hold for every environment and every backend. The closed examples
  need concrete ones: a platform whose \<open>JSON.parse\<close> accepts the text \<open>{}\<close> only, an
  SQS service and a broker that keep their messages in a list, and a broker whose channel
  is stale.
\<close>

definition ex_env :: js_env where
  "ex_env =
     \<lparr> JSON_parse = (\<lambda>txt. if txt = ''{}'' then Inr (JObject [])
                             else Inl (Error ''Unexpected token'')),
       JSON_stringify = (\<lambda>v. if v = JUndefined then Inr None else Inr (Some ''{}'')),
       parseInt = (\<lambda>txt. None),
       Date_now = 1763642060497,
       random36 = ''qom6s7yfy'' \<rparr>"

definition ex_sqs_up :: "(sqs_message list) sqs_backend" where
  "ex_sqs_up =
     \<lparr> send_SendMessage = (\<lambda>url txt delay attrs w.
         (case txt of
            None \<Rightarrow> (Inl (Error ''The request must contain the parameter MessageBody.''), w)
          | Some _ \<Rightarrow>
              (Inr ''bc6b80c3'',
               w @ [\<lparr> MessageId = Some ''bc6b80c3'', ReceiptHandle = Some ''rh-bc6b80c3'',
                      Body = txt, Attributes = None, MessageAttributes = attrs \<rparr>]))),
       send_ReceiveMessage = (\<lambda>url n wait vis w. (Inr (Some (take (nat n) w)), w)),
       send_DeleteMessage = (\<lambda>url handle w.
         (Inr (), filter (\<lambda>m. ReceiptHandle m \<noteq> handle) w)) \<rparr>"

text \<open>The broker's state: the messages ready for delivery and those delivered and not
  yet settled.\<close>

definition ex_amqp_up :: "(ConsumeMessage list \<times> ConsumeMessage list) amqp_backend" where
  "ex_amqp_up =
     \<lparr> ch_publish = (\<lambda>ex rk txt mid ts hdrs (ready, unacked).
         (Inr (),
          (ready @ [\<lparr> content = txt,
                      properties = \<lparr> messageId = Some mid, props_timestamp = Some ts,
                                     headers = hdrs, other_properties = [] \<rparr>,
                      fields' = \<lparr> deliveryTag = Suc (length ready + length unacked),
                                  other_fields = [] \<rparr> \<rparr>],
           unacked))),
       ch_get = (\<lambda>qn (ready, unacked).
         (case ready of
            [] \<Rightarrow> (Inr None, (ready, unacked))
          | m # ms \<Rightarrow> (Inr (Some m), (ms, unacked @ [m])))),
       ch_consume = (\<lambda>qn w. (Inr (), w)),
       ch_ack = (\<lambda>m (ready, unacked). (Inr (), (ready, remove1 m unacked))),
       ch_nack = (\<lambda>m allUpTo requeue (ready, unacked).
         (if requeue then ready @ [m] else ready, remove1 m unacked)),
       ch_close = (\<lambda>w. (Inr (), w)),
       conn_close = (\<lambda>w. (Inr (), w)) \<rparr>"

text \<open>A broker that has already closed the channel on its side. Its state is a pair:
  whether the wrapper still holds the stale channel, and whether the connection has been
  closed. Closing the channel wrapper raises while the channel is stale, and the wrapper
  drops the channel, so a later close of the wrapper goes through.\<close>

definition ex_amqp_stale :: "(bool \<times> bool) amqp_backend" where
  "ex_amqp_stale =
     \<lparr> ch_publish = (\<lambda>ex rk txt mid ts hdrs w. (Inl (Error ''Channel closed''), w)),
       ch_get = (\<lambda>qn w. (Inl (Error ''Channel closed''), w)),
       ch_consume = (\<lambda>qn w. (Inl (Error ''Channel closed''), w)),
       ch_ack = (\<lambda>m w. (Inl (Error ''Channel closed''), w)),
       ch_nack = (\<lambda>m allUpTo requeue w. w),
       ch_close = (\<lambda>(stale, closed).
         if stale then (Inl (Error ''Channel closed''), (False, closed))
         else (Inr (), (False, closed))),
       conn_close = (\<lambda>(stale, closed). (Inr (), (stale, True))) \<rparr>"

definition ex_options :: QueueModuleOptions where
  "ex_options =
     \<lparr> provider = ''both'',
       sqs = Some \<lparr> cfg_region = Some ''us-east-1'', cfg_endpoint = None,
                    cfg_queueUrl = Some ''http://localhost:4566/000000000000/test-queue'',
                    cfg_accessKeyId = None, cfg_secretAccessKey = None \<rparr>,
       rabbitmq = Some \<lparr> cfg_url = Some ''amqp://localhost:5672'',
                         cfg_queueName = Some ''test-queue'',
                         cfg_exchangeName = Some ''test-exchange'',
                         cfg_routingKey = Some ''test-routing-key'' \<rparr> \<rparr>"

text \<open>An environment that selects SQS and sets nothing else.\<close>

definition ex_environment :: "string \<Rightarrow> string option" where
  "ex_environment = (\<lambda>key. if key = ''QUEUE_PROVIDER'' then Some ''sqs'' else None)"

definition ex_unconfigured :: QueueModuleOptions where
  "ex_unconfigured = \<lparr> provider = ''both'', sqs = None, rabbitmq = None \<rparr>"


definition ex_rmq :: RabbitMqQueueService where
  "ex_rmq = rmq_on_connect (RabbitMqQueueService_new ex_options)"

text \<open>Two calls of \<open>close\<close> in a row on the connected RabbitMQ adapter, against the
  broker that has closed the channel.\<close>

definition ex_first_close :: "(error + unit) \<times> RabbitMqQueueService \<times> bool \<times> bool" where
  "ex_first_close = rmq_close ex_amqp_stale ex_rmq (True, False)"

definition ex_second_close :: "(error + unit) \<times> RabbitMqQueueService \<times> bool \<times> bool" where
  "ex_second_close = rmq_close ex_amqp_stale (fst (snd ex_first_close)) (snd (snd ex_first_close))"


definition ex_message :: QueueMessage where
  "ex_message = \<lparr> id' = Some ''rh-1'', body = JString ''hi'', attributes = None,
                   timestamp = None \<rparr>"

definition ex_delivery :: ConsumeMessage where
  "ex_delivery =
     \<lparr> content = ''not json'',
       properties = \<lparr> messageId = Some ''1763642060497-qom6s7yfy'', props_timestamp = None,
                      headers = None, other_properties = [] \<rparr>,
       fields' = \<lparr> deliveryTag = 1, other_fields = [] \<rparr> \<rparr>"

text \<open>A callback that rejects every message with an \<open>Error\<close> object, one that rejects
  every message with no reason, as \<open>() => Promise.reject()\<close> does, and one that accepts
  every message.\<close>

definition ex_failing_handler :: handler where
  "ex_failing_handler = (\<lambda>m. Inl (Rejected_Error (Error ''handler failed'')))"

definition ex_rejecting_handler :: handler where
  "ex_rejecting_handler = (\<lambda>m. Inl (Rejected_Value JUndefined))"

definition ex_ok_handler :: handler where
  "ex_ok_handler = (\<lambda>m. Inr ())"


section \<open>Composite adapter: publish and receive\<close>

text \<open>
  Claim C1. The result of the composite \<open>publish\<close> is decided by the outcomes of the two
  children: when both succeed it is the SQS id, a comma, and the RabbitMQ id; when
  exactly one succeeds it is that child's id alone; when both fail it is the error
  \<open>Failed to publish message to any queue provider\<close>. So the composite fails if and
  only if every child failed.
\<close>

theorem composite_publish_outcome:
  "(let r1 = fst (sqs_publish env client message options (sqsService c) wa);
        r2 = fst (rmq_publish env chan message options (rabbitMqService c) wb);
        r = fst (composite_publish env client chan message options c wa wb)
    in r = (case (r1, r2) of
              (Inr sqsId, Inr rabbitId) \<Rightarrow> Inr (sqsId @ '','' @ rabbitId)
            | (Inr sqsId, Inl _) \<Rightarrow> Inr sqsId
            | (Inl _, Inr rabbitId) \<Rightarrow> Inr rabbitId
            | (Inl _, Inl _) \<Rightarrow> Inl (Error ''Failed to publish message to any queue provider''))
       \<and> (isl r = (isl r1 \<and> isl r2)))"
  by (auto simp: composite_publish_def Let_def split: prod.splits sum.splits)

text \<open>
  Claim C2. The composite \<open>receiveMessages\<close> always succeeds. A child that fails
  contributes the empty list, and the result is the SQS child's messages followed by the
  RabbitMQ child's messages: its length is the sum of the two contributions, its prefix
  is the whole SQS contribution and the rest is the whole RabbitMQ contribution, whatever
  happened to the other child.
\<close>

theorem composite_receiveMessages_concat:
  "(let r1 = fst (sqs_receiveMessages env client options (sqsService c) wa);
        r2 = fst (rmq_receiveMessages env chan options (rabbitMqService c) wb);
        sqsMessages = (case r1 of Inl _ \<Rightarrow> [] | Inr ms \<Rightarrow> ms);
        rabbitMqMessages = (case r2 of Inl _ \<Rightarrow> [] | Inr ms \<Rightarrow> ms);
        r = fst (composite_receiveMessages env client chan options c wa wb)
    in r = Inr (sqsMessages @ rabbitMqMessages)
       \<and> length (projr r) = length sqsMessages + length rabbitMqMessages
       \<and> take (length sqsMessages) (projr r) = sqsMessages
       \<and> drop (length sqsMessages) (projr r) = rabbitMqMessages)"
  by (auto simp: composite_receiveMessages_def Let_def split: prod.splits sum.splits)


section \<open>Mock adapter: receive\<close>

text \<open>
  Claim C10. With \<open>q\<close> the queue of the mock adapter and \<open>m\<close> the requested maximum
  (10 when the options or the field are absent, or the field is 0), \<open>receiveMessages\<close>
  returns the first \<open>min m (length q)\<close> messages of \<open>q\<close> in their order and leaves the
  remaining suffix of \<open>q\<close> as the queue; returned and remaining messages together are
  \<open>q\<close>, and the id counter is untouched. The order of \<open>q\<close> is the order of publishing:
  \<open>publish\<close> puts the new message behind the messages already in \<open>q\<close>.
\<close>

theorem mock_receiveMessages_fifo_prefix:
  "(let q = messages s;
        m = (case options of
               None \<Rightarrow> 10
             | Some opts \<Rightarrow>
                 (case maxNumberOfMessages opts of
                    None \<Rightarrow> 10
                  | Some v \<Rightarrow> if v = 0 then 10 else v));
        n = nat (min m (int (length q)))
    in mock_receiveMessages options s = (Inr (take n q), s\<lparr> messages := drop n q \<rparr>)
       \<and> take n q @ drop n q = q
       \<and> messageIdCounter (snd (mock_receiveMessages options s)) = messageIdCounter s
       \<and> butlast (messages (snd (mock_publish env message popts s))) = q
       \<and> body (last (messages (snd (mock_publish env message popts s)))) = message)"
  by (auto simp: mock_receiveMessages_def mock_publish_def or_default_def splice0_def Let_def
           min_def split: option.splits)


section \<open>Backend selection\<close>

text \<open>
  Claim C3. Instantiating the module's providers selects the adapter from the provider
  name: \<open>sqs\<close>, \<open>rabbitmq\<close>, \<open>both\<close> and \<open>mock\<close> give the SQS, RabbitMQ, composite
  and mock adapter, and every other name makes the instantiation itself fail with
  \<open>Unknown queue provider: <name>\<close>, before any operation of an adapter is called. The
  same holds when the name is read from the environment (default \<open>rabbitmq\<close>).
\<close>

theorem provider_selection_exhaustive:
  "(provider options \<notin> {''sqs'', ''rabbitmq'', ''both'', ''mock''} \<longrightarrow>
      QueueModule_instantiate options =
        Inl (Error (''Unknown queue provider: '' @ provider options)))
   \<and> (provider options = ''sqs'' \<longrightarrow>
        QueueModule_instantiate options = Inr (Sqs (SqsQueueService_new options)))
   \<and> (provider options = ''rabbitmq'' \<longrightarrow>
        QueueModule_instantiate options = Inr (RabbitMq (RabbitMqQueueService_new options)))
   \<and> (provider options = ''both'' \<longrightarrow>
        QueueModule_instantiate options =
          Inr (Composite \<lparr> sqsService = SqsQueueService_new options,
                            rabbitMqService = RabbitMqQueueService_new options \<rparr>))
   \<and> (provider options = ''mock'' \<longrightarrow>
        QueueModule_instantiate options = Inr (Mock MockQueueService_new))
   \<and> (config_get config ''QUEUE_PROVIDER'' ''rabbitmq'' \<notin> {''sqs'', ''rabbitmq'', ''both'', ''mock''} \<longrightarrow>
        QueueModule_forRoot config =
          Inl (Error (''Unknown queue provider: '' @ config_get config ''QUEUE_PROVIDER'' ''rabbitmq'')))"
  by (simp add: QueueModule_forRoot_def QueueModule_instantiate_def QUEUE_SERVICE_factory_def
        QUEUE_OPTIONS_factory_def Let_def)

theorem provider_selection_exhaustive_witness:
  "QueueModule_instantiate (ex_options\<lparr> provider := ''kafka'' \<rparr>) =
     Inl (Error ''Unknown queue provider: kafka'')
   \<and> QueueModule_instantiate (ex_options\<lparr> provider := ''sqs'' \<rparr>) =
       Inr (Sqs (SqsQueueService_new (ex_options\<lparr> provider := ''sqs'' \<rparr>)))
   \<and> QueueModule_instantiate (ex_options\<lparr> provider := ''rabbitmq'' \<rparr>) =
       Inr (RabbitMq (RabbitMqQueueService_new (ex_options\<lparr> provider := ''rabbitmq'' \<rparr>)))
   \<and> QueueModule_instantiate (ex_options\<lparr> provider := ''both'' \<rparr>) =
       Inr (Composite \<lparr> sqsService = SqsQueueService_new (ex_options\<lparr> provider := ''both'' \<rparr>),
                         rabbitMqService = RabbitMqQueueService_new (ex_options\<lparr> provider := ''both'' \<rparr>) \<rparr>)
   \<and> QueueModule_instantiate (ex_options\<lparr> provider := ''mock'' \<rparr>) =
       Inr (Mock MockQueueService_new)
   \<and> QueueModule_forRoot (\<lambda>key. if key = ''QUEUE_PROVIDER'' then Some ''kafka'' else None) =
       Inl (Error ''Unknown queue provider: kafka'')"
  using provider_selection_exhaustive [of "ex_options\<lparr> provider := ''kafka'' \<rparr>"
          "\<lambda>key. if key = ''QUEUE_PROVIDER'' then Some ''kafka'' else None"]
        provider_selection_exhaustive [of "ex_options\<lparr> provider := ''sqs'' \<rparr>"]
        provider_selection_exhaustive [of "ex_options\<lparr> provider := ''rabbitmq'' \<rparr>"]
        provider_selection_exhaustive [of "ex_options\<lparr> provider := ''both'' \<rparr>"]
        provider_selection_exhaustive [of "ex_options\<lparr> provider := ''mock'' \<rparr>"]
  by (simp add: config_get_def)


section \<open>Adapters without configuration\<close>

lemma SqsQueueService_new_unconfigured:
  "(case sqs options of None \<Rightarrow> True | Some cfg \<Rightarrow> \<not> truthy_str (cfg_queueUrl cfg))
     \<Longrightarrow> SqsQueueService_new options = SqsQueueService_unconfigured"
  by (cases "sqs options") (simp_all add: SqsQueueService_new_def)

lemma RabbitMqQueueService_new_unconfigured:
  "(case rabbitmq options of None \<Rightarrow> True | Some cfg \<Rightarrow> \<not> truthy_str (cfg_url cfg))
     \<Longrightarrow> RabbitMqQueueService_new options = RabbitMqQueueService_unconfigured"
  by (cases "rabbitmq options") (simp_all add: RabbitMqQueueService_new_def)

text \<open>
  Claim C4, as stated, fails: on a RabbitMQ adapter built without any RabbitMQ
  configuration, \<open>deleteMessage\<close> does not fail. It is a no-op that succeeds, as its
  comment in the source says.
\<close>

theorem unconfigured_deleteMessage_succeeds:
  "RabbitMqQueueService_new ex_unconfigured = RabbitMqQueueService_unconfigured
   \<and> rmq_deleteMessage ''1763642060497-qom6s7yfy'' (RabbitMqQueueService_new ex_unconfigured) = Inr ()
   \<and> \<not> isl (rmq_deleteMessage ''1763642060497-qom6s7yfy'' (RabbitMqQueueService_new ex_unconfigured))"
  by (simp add: RabbitMqQueueService_new_def ex_unconfigured_def rmq_deleteMessage_def)

text \<open>
  Claim C4, amended. Both backend adapters are built without an error when their
  configuration is absent (no SQS section or no queue URL; no RabbitMQ section or no
  URL). On the adapter so built, the SQS \<open>publish\<close>, \<open>receiveMessages\<close>, \<open>subscribe\<close>
  and \<open>deleteMessage\<close> each fail at the call with \<open>SQS client is not initialized\<close>, and
  the RabbitMQ \<open>publish\<close>, \<open>receiveMessages\<close> and \<open>subscribe\<close> each fail at the call
  with \<open>RabbitMQ is not connected\<close>; none of them reaches the backend. The RabbitMQ
  \<open>deleteMessage\<close> succeeds and does nothing.
\<close>

theorem unconfigured_operations:
  "((case sqs options of None \<Rightarrow> True | Some cfg \<Rightarrow> \<not> truthy_str (cfg_queueUrl cfg)) \<longrightarrow>
      (let s = SqsQueueService_new options; msg = ''SQS client is not initialized''
       in sqs_publish env client message popts s wa = (Inl (Error msg), wa)
          \<and> sqs_receiveMessages env client ropts s wa = (Inl (Error msg), wa)
          \<and> sqs_subscribe s = (Inl (Error msg), s)
          \<and> sqs_deleteMessage client mid s wa = (Inl (Error msg), wa)))
   \<and> ((case rabbitmq options of None \<Rightarrow> True | Some cfg \<Rightarrow> \<not> truthy_str (cfg_url cfg)) \<longrightarrow>
      (let s = RabbitMqQueueService_new options; msg = ''RabbitMQ is not connected''
       in rmq_publish env chan message popts s wb = (Inl (Error msg), wb)
          \<and> rmq_receiveMessages env chan ropts s wb = (Inl (Error msg), wb)
          \<and> rmq_subscribe chan s wb = (Inl (Error msg), wb)
          \<and> rmq_deleteMessage msgId s = Inr ()))"
proof (intro conjI impI)
  assume "case sqs options of None \<Rightarrow> True | Some cfg \<Rightarrow> \<not> truthy_str (cfg_queueUrl cfg)"
  then have "SqsQueueService_new options = SqsQueueService_unconfigured"
    by (rule SqsQueueService_new_unconfigured)
  then show "let s = SqsQueueService_new options; msg = ''SQS client is not initialized''
       in sqs_publish env client message popts s wa = (Inl (Error msg), wa)
          \<and> sqs_receiveMessages env client ropts s wa = (Inl (Error msg), wa)
          \<and> sqs_subscribe s = (Inl (Error msg), s)
          \<and> sqs_deleteMessage client mid s wa = (Inl (Error msg), wa)"
    by (simp add: SqsQueueService_unconfigured_def sqs_publish_def sqs_receiveMessages_def
          sqs_subscribe_def sqs_deleteMessage_def)
next
  assume "case rabbitmq options of None \<Rightarrow> True | Some cfg \<Rightarrow> \<not> truthy_str (cfg_url cfg)"
  then have "RabbitMqQueueService_new options = RabbitMqQueueService_unconfigured"
    by (rule RabbitMqQueueService_new_unconfigured)
  then show "let s = RabbitMqQueueService_new options; msg = ''RabbitMQ is not connected''
       in rmq_publish env chan message popts s wb = (Inl (Error msg), wb)
          \<and> rmq_receiveMessages env chan ropts s wb = (Inl (Error msg), wb)
          \<and> rmq_subscribe chan s wb = (Inl (Error msg), wb)
          \<and> rmq_deleteMessage msgId s = Inr ()"
    by (simp add: RabbitMqQueueService_unconfigured_def rmq_publish_def rmq_receiveMessages_def
          rmq_subscribe_def rmq_deleteMessage_def)
qed

theorem unconfigured_operations_witness:
  "sqs ex_unconfigured = None \<and> rabbitmq ex_unconfigured = None
   \<and> sqs_publish ex_env ex_sqs_up (JString ''hi'') None (SqsQueueService_new ex_unconfigured) [] =
       (Inl (Error ''SQS client is not initialized''), [])
   \<and> sqs_receiveMessages ex_env ex_sqs_up None (SqsQueueService_new ex_unconfigured) [] =
       (Inl (Error ''SQS client is not initialized''), [])
   \<and> fst (sqs_subscribe (SqsQueueService_new ex_unconfigured)) =
       Inl (Error ''SQS client is not initialized'')
   \<and> sqs_deleteMessage ex_sqs_up (Some ''rh-1'') (SqsQueueService_new ex_unconfigured) [] =
       (Inl (Error ''SQS client is not initialized''), [])
   \<and> rmq_publish ex_env ex_amqp_up (JString ''hi'') None (RabbitMqQueueService_new ex_unconfigured) ([], []) =
       (Inl (Error ''RabbitMQ is not connected''), ([], []))
   \<and> rmq_receiveMessages ex_env ex_amqp_up None (RabbitMqQueueService_new ex_unconfigured) ([], []) =
       (Inl (Error ''RabbitMQ is not connected''), ([], []))
   \<and> rmq_subscribe ex_amqp_up (RabbitMqQueueService_new ex_unconfigured) ([], []) =
       (Inl (Error ''RabbitMQ is not connected''), ([], []))"
proof -
  have h1: "case sqs ex_unconfigured of None \<Rightarrow> True | Some cfg \<Rightarrow> \<not> truthy_str (cfg_queueUrl cfg)"
    by (simp add: ex_unconfigured_def)
  have h2: "case rabbitmq ex_unconfigured of None \<Rightarrow> True | Some cfg \<Rightarrow> \<not> truthy_str (cfg_url cfg)"
    by (simp add: ex_unconfigured_def)
  have h3: "sqs ex_unconfigured = None \<and> rabbitmq ex_unconfigured = None"
    by (simp add: ex_unconfigured_def)
  show ?thesis
    using h1 h2 h3
      unconfigured_operations [of ex_unconfigured ex_env ex_sqs_up "JString ''hi''" None "[]" None
        "Some ''rh-1''" ex_amqp_up "([], [])" "''m''"]
    by (simp add: Let_def)
qed


section \<open>Queue identifier\<close>

text \<open>
  Claim C5. With \<open>QUEUE_PROVIDER=sqs\<close> and \<open>SQS_QUEUE_URL\<close> absent from the
  environment, the module starts with the SQS adapter, built unconfigured, as its queue
  service. Its \<open>getQueueIdentifier\<close> returns the field \<open>queueUrl\<close>, which was never
  assigned: the result is \<open>undefined\<close>, not a string. The call does not raise.
\<close>

theorem sqs_getQueueIdentifier_undefined:
  "QueueModule_forRoot ex_environment = Inr (Sqs SqsQueueService_unconfigured)
   \<and> sqs_getQueueIdentifier SqsQueueService_unconfigured = None"
  by (simp add: QueueModule_forRoot_def QueueModule_instantiate_def QUEUE_SERVICE_factory_def
        QUEUE_OPTIONS_factory_def ex_environment_def config_get_def Let_def
        sqs_getQueueIdentifier_def SqsQueueService_new_def truthy_str_def
        SqsQueueService_unconfigured_def)


section \<open>Close\<close>

lemma rmq_close_never_fails: "fst (rmq_close chan s w) = Inr ()"
  by (simp add: rmq_close_def split: prod.splits sum.splits)

lemma rmq_close_state:
  "fst (snd (rmq_close chan s w)) = s \<or> fst (snd (rmq_close chan s w)) = s\<lparr> isConnected := False \<rparr>"
  by (simp add: rmq_close_def split: prod.splits sum.splits)

lemma rmq_close_disconnected:
  "\<not> isConnected s \<Longrightarrow> fst (snd (rmq_close chan s w)) = s"
  using rmq_close_state [of chan s w] by auto

lemma composite_close_eq:
  "composite_close chan c w =
     (Inr (), \<lparr> sqsService = snd (sqs_close (sqsService c)),
                rabbitMqService = fst (snd (rmq_close chan (rabbitMqService c) w)) \<rparr>,
      snd (snd (rmq_close chan (rabbitMqService c) w)))"
proof -
  obtain r2 rmq' wb' where rc: "rmq_close chan (rabbitMqService c) w = (r2, rmq', wb')"
    by (cases "rmq_close chan (rabbitMqService c) w") auto
  have "r2 = Inr ()"
    using rmq_close_never_fails [of chan "rabbitMqService c" w] rc by simp
  then show ?thesis
    by (simp add: composite_close_def sqs_close_def rc)
qed

lemma close_never_fails:
  "fst (mock_close m) = Inr () \<and> fst (sqs_close q) = Inr ()
   \<and> fst (rmq_close chan r w) = Inr () \<and> fst (composite_close chan c w) = Inr ()"
  by (simp add: mock_close_def sqs_close_def rmq_close_never_fails composite_close_eq)

lemma mock_sqs_close_twice:
  "mock_close (snd (mock_close m)) = mock_close m \<and> sqs_close (snd (sqs_close q)) = sqs_close q"
  by (simp add: mock_close_def sqs_close_def)

text \<open>When neither close call of the RabbitMQ \<open>close\<close> raises, the adapter is left marked
  disconnected, and a later \<open>close\<close> leaves it as it is.\<close>

lemma rmq_close_clean:
  assumes "channelWrapper s \<noteq> None \<longrightarrow> fst (ch_close chan w) = Inr ()"
    and "connection s \<noteq> None \<longrightarrow>
           fst (conn_close chan (if channelWrapper s = None then w else snd (ch_close chan w))) = Inr ()"
  shows "fst (snd (rmq_close chan s w)) = s\<lparr> isConnected := False \<rparr>"
  using assms by (auto simp: rmq_close_def split: prod.splits sum.splits)

lemma rmq_close_twice_clean:
  assumes "channelWrapper s \<noteq> None \<longrightarrow> fst (ch_close chan w) = Inr ()"
    and "connection s \<noteq> None \<longrightarrow>
           fst (conn_close chan (if channelWrapper s = None then w else snd (ch_close chan w))) = Inr ()"
  shows "fst (snd (rmq_close chan' (fst (snd (rmq_close chan s w))) w')) =
           fst (snd (rmq_close chan s w))"
  using rmq_close_clean [OF assms] by (simp add: rmq_close_disconnected)

text \<open>
  Claim C6. The body of the RabbitMQ \<open>close\<close> is one \<open>try\<close> whose \<open>catch\<close> only logs.
  On a connected adapter whose channel the broker has already closed, the channel close
  raises: the first \<open>close\<close> completes without an error, but it has skipped the close of
  the connection and the reset of the flag, so the connection is still open and the
  adapter still marked connected. The second \<open>close\<close> then goes through, closes the
  connection and clears the flag: the second call changes the state of the adapter.
\<close>

theorem second_close_changes_state:
  "fst ex_first_close = Inr ()
   \<and> isConnected (fst (snd ex_first_close))
   \<and> snd (snd ex_first_close) = (False, False)
   \<and> fst ex_second_close = Inr ()
   \<and> \<not> isConnected (fst (snd ex_second_close))
   \<and> snd (snd ex_second_close) = (False, True)
   \<and> fst (snd ex_second_close) \<noteq> fst (snd ex_first_close)"
proof -
  have c: "isConnected ex_rmq \<and> channelWrapper ex_rmq \<noteq> None \<and> connection ex_rmq \<noteq> None"
    by (simp add: ex_rmq_def ex_options_def RabbitMqQueueService_new_def truthy_str_def
          rmq_on_connect_def)
  have 1: "ex_first_close = (Inr (), ex_rmq, (False, False))"
    using c by (auto simp: ex_first_close_def rmq_close_def ex_amqp_stale_def)
  have 2: "ex_second_close = (Inr (), ex_rmq\<lparr> isConnected := False \<rparr>, (False, True))"
    using c by (auto simp: ex_second_close_def 1 rmq_close_def ex_amqp_stale_def)
  have "isConnected (fst (snd ex_first_close)) \<and> \<not> isConnected (fst (snd ex_second_close))"
    using c by (simp add: 1 2)
  then have "fst (snd ex_second_close) \<noteq> fst (snd ex_first_close)"
    by auto
  with c show ?thesis
    by (simp add: 1 2)
qed


section \<open>Receiving from an empty queue\<close>









section \<open>Mapping a received payload\<close>

text \<open>
  Claim C8. Mapping a received message has no failing path. When \<open>JSON.parse\<close> raises on
  the payload, the RabbitMQ mapping returns the content text verbatim as the body, and
  the SQS mapping returns the \<open>Body\<close> field verbatim as the body.
\<close>

theorem malformed_payload_surfaced_verbatim:
  "(JSON_parse env (content msg) = Inl e \<longrightarrow>
      body (mapRabbitMqMessage env msg) = JString (content msg))
   \<and> (Body message = Some raw \<and> raw \<noteq> [] \<and> JSON_parse env raw = Inl e \<longrightarrow>
        body (mapSqsMessage env message) = JString raw)
   \<and> (JSON_parse env (if truthy_str (Body message) then the (Body message) else ''{}'') = Inl e \<longrightarrow>
        body (mapSqsMessage env message) =
          (case Body message of None \<Rightarrow> JUndefined | Some txt \<Rightarrow> JString txt))"
  by (simp add: mapRabbitMqMessage_def mapSqsMessage_def truthy_str_def)

theorem malformed_payload_surfaced_verbatim_witness:
  "JSON_parse ex_env ''not json'' = Inl (Error ''Unexpected token'')
   \<and> body (mapRabbitMqMessage ex_env ex_delivery) = JString ''not json''
   \<and> body (mapSqsMessage ex_env \<lparr> MessageId = Some ''bc6b80c3'', ReceiptHandle = Some ''rh-1'',
              Body = Some ''not json'', Attributes = None, MessageAttributes = None \<rparr>)
       = JString ''not json''"
proof -
  have h: "JSON_parse ex_env ''not json'' = Inl (Error ''Unexpected token'')"
    by (simp add: ex_env_def)
  have c: "content ex_delivery = ''not json''"
    by (simp add: ex_delivery_def)
  show ?thesis
    using h c
      malformed_payload_surfaced_verbatim [of ex_env ex_delivery "Error ''Unexpected token''"
        "\<lparr> MessageId = Some ''bc6b80c3'', ReceiptHandle = Some ''rh-1'',
              Body = Some ''not json'', Attributes = None, MessageAttributes = None \<rparr>"
        "''not json''"]
    by (simp add: truthy_str_def)
qed


section \<open>Subscribe: acknowledge or redeliver\<close>

lemma sqs_deleteMessage_configured:
  "sqsClient s \<noteq> None \<Longrightarrow>
     sqs_deleteMessage client mid s w = send_DeleteMessage client (queueUrl s) mid w"
  by (auto simp: sqs_deleteMessage_def)

text \<open>
  For a callback that succeeds, or rejects with a value whose \<open>message\<close> can be read (an
  \<open>Error\<close> object, for one), each loop settles the message: success removes it from
  the mock queue, acknowledges it on the channel or sends its delete to SQS; a rejection
  puts it back at the end of the mock queue, negatively acknowledges it with requeue, or
  sends nothing to SQS.
\<close>

lemma read_message_Error: "read_message (Rejected_Error e) = Inr ()"
  by (simp add: read_message_def)

lemma mock_tick_settles:
  assumes "messages m = msg # rest"
  shows "callback msg = Inr () \<Longrightarrow> mock_tick callback m = (Inr (), m\<lparr> messages := rest \<rparr>)"
    and "callback msg = Inl r \<Longrightarrow> read_message r = Inr () \<Longrightarrow>
           mock_tick callback m = (Inr (), m\<lparr> messages := rest @ [msg] \<rparr>)"
  using assms by (simp_all add: mock_tick_def)

lemma rmq_on_message_settles:
  shows "callback (mapRabbitMqMessage env delivery) = Inr () \<Longrightarrow>
           rmq_on_message env chan callback (Some delivery) w =
             (case ch_ack chan delivery w of
                (Inr _, w') \<Rightarrow> (Inr (), w')
              | (Inl _, w') \<Rightarrow> (Inr (), ch_nack chan delivery False True w'))"
    and "callback (mapRabbitMqMessage env delivery) = Inl r \<Longrightarrow> read_message r = Inr () \<Longrightarrow>
           rmq_on_message env chan callback (Some delivery) w =
             (Inr (), ch_nack chan delivery False True w)"
  by (simp_all add: rmq_on_message_def)

lemma sqs_process_message_settles:
  shows "sqsClient q \<noteq> None \<Longrightarrow> callback msg = Inr () \<Longrightarrow>
           sqs_process_message client callback q msg w =
             (Inr (), snd (send_DeleteMessage client (queueUrl q) (id' msg) w))"
    and "callback msg = Inl r \<Longrightarrow> read_message r = Inr () \<Longrightarrow>
           sqs_process_message client callback q msg w = (Inr (), w)"
  by (simp_all add: sqs_process_message_def sqs_deleteMessage_configured)

lemma settled_examples:
  "mock_tick ex_ok_handler \<lparr> messages = [ex_message], messageIdCounter = 1 \<rparr> =
     (Inr (), \<lparr> messages = [], messageIdCounter = 1 \<rparr>)
   \<and> mock_tick ex_failing_handler \<lparr> messages = [ex_message], messageIdCounter = 1 \<rparr> =
       (Inr (), \<lparr> messages = [ex_message], messageIdCounter = 1 \<rparr>)
   \<and> rmq_on_message ex_env ex_amqp_up ex_ok_handler (Some ex_delivery) ([], [ex_delivery]) =
       (Inr (), ([], []))
   \<and> rmq_on_message ex_env ex_amqp_up ex_failing_handler (Some ex_delivery) ([], [ex_delivery]) =
       (Inr (), ([ex_delivery], []))"
  by (simp add: mock_tick_def rmq_on_message_def ex_ok_handler_def ex_failing_handler_def
        read_message_def ex_amqp_up_def)

text \<open>
  Claim C9. A callback may reject with no reason: \<open>Promise.reject()\<close> rejects with
  \<open>undefined\<close>. The \<open>catch\<close> block of each subscribe loop reads \<open>error.message\<close> before
  it recovers, and that read raises on \<open>undefined\<close>. In the mock adapter the message has
  already been taken off the queue, and the push that would put it back is not reached:
  after the firing the queue is empty, and the message was neither processed nor
  re-queued. In the RabbitMQ adapter \<open>nack\<close> is not reached: the delivery stays
  unsettled at the broker, neither acknowledged nor put back among the ready messages.
\<close>

theorem rejection_without_reason_loses_message:
  "mock_tick ex_rejecting_handler \<lparr> messages = [ex_message], messageIdCounter = 1 \<rparr> =
     (Inl (type_error ''undefined'' ''message''), \<lparr> messages = [], messageIdCounter = 1 \<rparr>)
   \<and> rmq_on_message ex_env ex_amqp_up ex_rejecting_handler (Some ex_delivery) ([], [ex_delivery]) =
       (Inl (type_error ''undefined'' ''message''), ([], [ex_delivery]))"
  by (simp add: mock_tick_def rmq_on_message_def ex_rejecting_handler_def read_message_def)

end
